theory Spec2Isabelle
  imports Main
begin

section \<open>Strings and characters\<close>

text \<open>
  A Python \<open>str\<close> is modelled as a \<open>string\<close>, one \<open>char\<close> per code point, so the
  model covers the code points 0 to 255 (Latin-1). The three character classes below
  are the ones CPython uses on that range: \<open>str.strip()\<close> and the pattern \<open>\s\<close> share
  one whitespace table, \<open>\w\<close> is "alphanumeric or underscore", and \<open>str.lower()\<close> maps
  each upper-case letter of the range to a letter of the range.
\<close>

definition is_space :: "char \<Rightarrow> bool" where
  "is_space c =
     (let n = (of_char c :: nat)
      in (9 \<le> n \<and> n \<le> 13) \<or> (28 \<le> n \<and> n \<le> 32) \<or> n = 133 \<or> n = 160)"

definition is_word :: "char \<Rightarrow> bool" where
  "is_word c =
     (let n = (of_char c :: nat)
      in (48 \<le> n \<and> n \<le> 57) \<or> (65 \<le> n \<and> n \<le> 90) \<or> n = 95 \<or> (97 \<le> n \<and> n \<le> 122)
         \<or> n = 170 \<or> n = 178 \<or> n = 179 \<or> n = 181 \<or> n = 185 \<or> n = 186
         \<or> (188 \<le> n \<and> n \<le> 190) \<or> (192 \<le> n \<and> n \<le> 214) \<or> (216 \<le> n \<and> n \<le> 246)
         \<or> 248 \<le> n)"

definition lower_char :: "char \<Rightarrow> char" where
  "lower_char c =
     (let n = (of_char c :: nat)
      in if (65 \<le> n \<and> n \<le> 90) \<or> (192 \<le> n \<and> n \<le> 214) \<or> (216 \<le> n \<and> n \<le> 222)
         then char_of (n + 32) else c)"

text \<open>\<open>s.strip(chars)\<close>: drop the characters of the class from both ends.\<close>

definition py_strip :: "(char \<Rightarrow> bool) \<Rightarrow> string \<Rightarrow> string" where
  "py_strip p s = rev (dropWhile p (rev (dropWhile p s)))"

text \<open>\<open>re.sub('\s+', '_', s)\<close>: every maximal run of whitespace becomes one underscore.\<close>

function sub_spaces :: "string \<Rightarrow> string" where
  "sub_spaces [] = []"
| "sub_spaces (c # cs) =
     (if is_space c then CHR ''_'' # sub_spaces (dropWhile is_space cs)
      else c # sub_spaces cs)"
  by pat_completeness auto
termination
  by (relation "measure length") (auto simp: length_dropWhile_le le_imp_less_Suc)

text \<open>
  \<open>slugify\<close> (lines 5 to 26). The argument is a \<open>str\<close> or \<open>None\<close>. The guard
  \<open>if string:\<close> fails for \<open>None\<close> and for the empty string, and the function then falls
  off its end and returns \<open>None\<close>.
\<close>

definition slugify :: "string option \<Rightarrow> string option" where
  "slugify string =
     (case string of
        None \<Rightarrow> None
      | Some s \<Rightarrow>
          if s = [] then None
          else
            let s1 = py_strip is_space s;
                s2 = filter (\<lambda>c. c \<noteq> CHR ''.'') s1;
                s3 = sub_spaces s2;
                s4 = filter (\<lambda>c. is_word c \<or> c = CHR ''.'' \<or> c = CHR ''-'') s3
            in Some (map lower_char (py_strip (\<lambda>c. c \<in> set ''_.- '') s4)))"

section \<open>Python values and list operations\<close>

text \<open>
  The arguments \<open>pkey\<close>, \<open>varchar_max\<close> and \<open>infer_nulls\<close> are tested by the code for
  their type or value, so they are Python values: \<open>None\<close>, a \<open>bool\<close>, an \<open>int\<close> or a
  \<open>str\<close>.
\<close>

datatype pyval = PyNone | PyBool bool | PyInt int | PyStr string

text \<open>Python's \<open>==\<close>: a \<open>bool\<close> is an \<open>int\<close>, so \<open>True == 1\<close> and \<open>False == 0\<close>.\<close>

fun py_eq :: "pyval \<Rightarrow> pyval \<Rightarrow> bool" where
  "py_eq PyNone PyNone = True"
| "py_eq (PyBool a) (PyBool b) = (a = b)"
| "py_eq (PyBool a) (PyInt n) = ((if a then 1 else 0) = n)"
| "py_eq (PyInt n) (PyBool a) = (n = (if a then 1 else 0))"
| "py_eq (PyInt m) (PyInt n) = (m = n)"
| "py_eq (PyStr s) (PyStr t) = (s = t)"
| "py_eq _ _ = False"

text \<open>\<open>x in xs\<close> for a list of values: some element equals \<open>x\<close>.\<close>

definition py_in :: "pyval \<Rightarrow> pyval list \<Rightarrow> bool" where
  "py_in x xs = list_ex (py_eq x) xs"

text \<open>
  Each constructor is one place where the call can raise; the comment gives the Python
  exception class and the line.
\<close>

datatype error =
    DuplicateColumns         \<comment> \<open>\<open>Exception\<close>, line 84\<close>
  | InferNullsTypeError      \<comment> \<open>\<open>TypeError\<close>, line 87\<close>
  | NaNToInteger             \<comment> \<open>\<open>ValueError\<close> raised by \<open>int(nan)\<close>, line 112\<close>
  | PrimaryKeyNullError      \<comment> \<open>\<open>PrimaryKeyNullError\<close>, line 140\<close>
  | PkeyNotInDataFrame       \<comment> \<open>\<open>ValueError\<close>, line 142\<close>
  | PkeyTypeError            \<comment> \<open>\<open>TypeError\<close>, line 144\<close>
  | NotInList                \<comment> \<open>\<open>ValueError\<close> raised by \<open>list.index\<close> or \<open>list.remove\<close>\<close>
  | OverwriteInvalidColumn   \<comment> \<open>\<open>ValueError\<close>, line 162\<close>
  | IndexError               \<comment> \<open>\<open>IndexError\<close>: list index, or replacement index of \<open>str.format\<close>\<close>
  | AttributeError           \<comment> \<open>\<open>AttributeError\<close>: \<open>.strip\<close> of a value that is not a \<open>str\<close>\<close>
  | FormatBraceError         \<comment> \<open>\<open>ValueError\<close> raised by \<open>str.format\<close> for a single brace\<close>
  | FormatFieldError         \<comment> \<open>some exception raised by \<open>str.format\<close> for a field other than \<open>{}\<close>\<close>

text \<open>\<open>xs.index(x)\<close>: the first position of \<open>x\<close>, \<open>ValueError\<close> when there is none.\<close>

fun first_index :: "'a list \<Rightarrow> 'a \<Rightarrow> nat" where
  "first_index [] x = 0"
| "first_index (y # ys) x = (if y = x then 0 else Suc (first_index ys x))"

definition py_index :: "'a list \<Rightarrow> 'a \<Rightarrow> error + nat" where
  "py_index xs x = (if x \<in> set xs then Inr (first_index xs x) else Inl NotInList)"

text \<open>\<open>xs.remove(x)\<close>: delete the first occurrence, \<open>ValueError\<close> when there is none.\<close>

definition py_remove :: "'a list \<Rightarrow> 'a \<Rightarrow> error + 'a list" where
  "py_remove xs x = (if x \<in> set xs then Inr (remove1 x xs) else Inl NotInList)"

text \<open>\<open>xs[i]\<close> and \<open>xs[i] = v\<close> for \<open>i \<ge> 0\<close>: \<open>IndexError\<close> out of range.\<close>

definition py_get :: "'a list \<Rightarrow> nat \<Rightarrow> error + 'a" where
  "py_get xs i = (if i < length xs then Inr (xs ! i) else Inl IndexError)"

definition py_set :: "'a list \<Rightarrow> nat \<Rightarrow> 'a \<Rightarrow> error + 'a list" where
  "py_set xs i v = (if i < length xs then Inr (xs[i := v]) else Inl IndexError)"

text \<open>\<open>xs[i] = xs[i] + suffix\<close>.\<close>

definition py_append_at :: "string list \<Rightarrow> nat \<Rightarrow> string \<Rightarrow> error + string list" where
  "py_append_at xs i suffix =
     (case py_get xs i of Inl e \<Rightarrow> Inl e | Inr t \<Rightarrow> py_set xs i (t @ suffix))"

text \<open>\<open>str(n)\<close> for a natural number, and \<open>str(x)\<close> for a \<open>str\<close> or \<open>None\<close>.\<close>

fun str_nat :: "nat \<Rightarrow> string" where
  "str_nat n =
     (if n < 10 then [char_of (48 + n)] else str_nat (n div 10) @ [char_of (48 + n mod 10)])"

declare str_nat.simps [simp del]



section \<open>The DataFrame\<close>

text \<open>
  A DataFrame is the list of its columns, in order; a column is a label, which is a
  string, and a Series. The Series carries its dtype and the cells the code can read
  from a column of that dtype:
  \<^item> \<open>object\<close> and \<open>category\<close>: strings, \<open>None\<close> for a missing value;
  \<^item> the eight integer dtypes: integers (a NumPy integer array has no missing value);
  \<^item> the float dtypes and the dtypes the code does not name: for each cell, whether it
    is present (\<open>True\<close>) or missing. The code reads nothing else from them.
\<close>

datatype int_dtype = Int8 | Int16 | Int32 | Int64 | UInt8 | UInt16 | UInt32 | UInt64

datatype float_dtype = Float16 | Float32 | Float64

datatype other_dtype = Bool | Datetime64 | Timedelta64 | Complex64 | Complex128

datatype series =
    ObjectSeries "string option list"
  | CategorySeries "string option list"
  | IntSeries int_dtype "int list"
  | FloatSeries float_dtype "bool list"
  | OtherSeries other_dtype "bool list"

type_synonym dataframe = "(string \<times> series) list"

fun int_dtype_name :: "int_dtype \<Rightarrow> string" where
  "int_dtype_name Int8 = ''int8''"
| "int_dtype_name Int16 = ''int16''"
| "int_dtype_name Int32 = ''int32''"
| "int_dtype_name Int64 = ''int64''"
| "int_dtype_name UInt8 = ''uint8''"
| "int_dtype_name UInt16 = ''uint16''"
| "int_dtype_name UInt32 = ''uint32''"
| "int_dtype_name UInt64 = ''uint64''"

fun float_dtype_name :: "float_dtype \<Rightarrow> string" where
  "float_dtype_name Float16 = ''float16''"
| "float_dtype_name Float32 = ''float32''"
| "float_dtype_name Float64 = ''float64''"

fun other_dtype_name :: "other_dtype \<Rightarrow> string" where
  "other_dtype_name Bool = ''bool''"
| "other_dtype_name Datetime64 = ''datetime64[ns]''"
| "other_dtype_name Timedelta64 = ''timedelta64[ns]''"
| "other_dtype_name Complex64 = ''complex64''"
| "other_dtype_name Complex128 = ''complex128''"

text \<open>\<open>dtype.name\<close>.\<close>

fun dtype_name :: "series \<Rightarrow> string" where
  "dtype_name (ObjectSeries vs) = ''object''"
| "dtype_name (CategorySeries vs) = ''category''"
| "dtype_name (IntSeries d vs) = int_dtype_name d"
| "dtype_name (FloatSeries d ps) = float_dtype_name d"
| "dtype_name (OtherSeries d ps) = other_dtype_name d"

text \<open>\<open>notnull().all()\<close> of one column: no cell is missing.\<close>

fun notnull_all :: "series \<Rightarrow> bool" where
  "notnull_all (ObjectSeries vs) = list_all (\<lambda>v. v \<noteq> None) vs"
| "notnull_all (CategorySeries vs) = list_all (\<lambda>v. v \<noteq> None) vs"
| "notnull_all (IntSeries d vs) = True"
| "notnull_all (FloatSeries d ps) = list_all (\<lambda>p. p) ps"
| "notnull_all (OtherSeries d ps) = list_all (\<lambda>p. p) ps"

text \<open>
  \<open>min()\<close> and \<open>max()\<close> of a Series skip missing values and give \<open>nan\<close> (here \<open>None\<close>)
  when nothing is left.
\<close>

definition series_min :: "int list \<Rightarrow> int option" where
  "series_min vs = (case vs of [] \<Rightarrow> None | v # ws \<Rightarrow> Some (fold min ws v))"

definition series_max :: "int list \<Rightarrow> int option" where
  "series_max vs = (case vs of [] \<Rightarrow> None | v # ws \<Rightarrow> Some (fold max ws v))"

text \<open>\<open>.str.len().max()\<close>: the greatest length among the strings of the column.\<close>

definition str_len_max :: "string option list \<Rightarrow> nat option" where
  "str_len_max vs =
     (case concat (map (\<lambda>v. case v of None \<Rightarrow> [] | Some s \<Rightarrow> [length s]) vs) of
        [] \<Rightarrow> None
      | n # ns \<Rightarrow> Some (fold max ns n))"

fun str_values :: "series \<Rightarrow> string option list" where
  "str_values (ObjectSeries vs) = vs"
| "str_values (CategorySeries vs) = vs"
| "str_values _ = []"

fun int_values :: "series \<Rightarrow> int list" where
  "int_values (IntSeries d vs) = vs"
| "int_values _ = []"

section \<open>create_table_sql_script\<close>

text \<open>
  One pass of the loop of lines 104 to 129: the SQL type appended to \<open>sql_col_types\<close>
  for one column; \<open>None\<close> when the dtype matches none of the three branches, and
  nothing is appended. \<open>col_length\<close> is computed before \<open>varchar_max\<close> is looked at, and
  \<open>int(col_length)\<close> raises when it is \<open>nan\<close>.
\<close>

definition column_sql_type :: "pyval \<Rightarrow> series \<Rightarrow> error + string option" where
  "column_sql_type varchar_max col =
     (if dtype_name col \<in> set [''object'', ''category''] then
        (let col_length = str_len_max (str_values col)
         in if varchar_max = PyBool True then Inr (Some ''TEXT'')
            else (case col_length of
                    None \<Rightarrow> Inl NaNToInteger
                  | Some n \<Rightarrow> Inr (Some (''VARCHAR('' @ str_nat n @ '')''))))
      else if dtype_name col \<in> set [''int8'', ''int16'', ''int32'', ''int64'',
                                      ''uint8'', ''uint16'', ''uint32'', ''uint64''] then
        (if series_min (int_values col) = Some 0 \<and> series_max (int_values col) = Some 1
         then Inr (Some ''BIT'')
         else if dtype_name col \<in> set [''int8'', ''int16'', ''uint8''] then Inr (Some ''SMALLINT'')
         else if dtype_name col \<in> set [''int32'', ''uint16''] then Inr (Some ''INT'')
         else if dtype_name col \<in> set [''int64'', ''uint32''] then Inr (Some ''BIGINT'')
         else Inr (Some ''NUMERIC''))
      else if dtype_name col \<in> set [''float8'', ''float16'', ''float32'', ''float64''] then
        Inr (Some ''NUMERIC'')
      else Inr None)"

text \<open>The loop itself, with \<open>sql_col_types\<close> as the accumulator.\<close>

fun infer_sql_col_types :: "pyval \<Rightarrow> series list \<Rightarrow> string list \<Rightarrow> error + string list" where
  "infer_sql_col_types varchar_max [] sql_col_types = Inr sql_col_types"
| "infer_sql_col_types varchar_max (col # cols) sql_col_types =
     (case column_sql_type varchar_max col of
        Inl e \<Rightarrow> Inl e
      | Inr None \<Rightarrow> infer_sql_col_types varchar_max cols sql_col_types
      | Inr (Some t) \<Rightarrow> infer_sql_col_types varchar_max cols (sql_col_types @ [t]))"

text \<open>Lines 97, 100 and 101: the sanitized names of all columns, and of those without a
  missing value.\<close>

definition sql_col_names :: "dataframe \<Rightarrow> string option list" where
  "sql_col_names df = map (\<lambda>column. slugify (Some (fst column))) df"

definition not_null_columns :: "dataframe \<Rightarrow> string option list" where
  "not_null_columns df =
     map (\<lambda>column. slugify (Some (fst column))) (filter (\<lambda>column. notnull_all (snd column)) df)"

text \<open>
  \<open>slugify\<close> called on an argument value: a falsy value gives \<open>None\<close>, a \<open>str\<close> goes
  through the pipeline, and any other value has no \<open>.strip\<close>.
\<close>

fun slugify_arg :: "pyval \<Rightarrow> error + string option" where
  "slugify_arg PyNone = Inr None"
| "slugify_arg (PyStr s) = Inr (slugify (Some s))"
| "slugify_arg (PyBool b) = (if b then Inl AttributeError else Inr None)"
| "slugify_arg (PyInt n) = (if n \<noteq> 0 then Inl AttributeError else Inr None)"

text \<open>Lines 133 to 144: the primary key.\<close>

definition primary_key ::
  "pyval \<Rightarrow> string option list \<Rightarrow> string option list \<Rightarrow> string list \<Rightarrow> error + string list" where
  "primary_key pkey names not_null types =
     (case pkey of
        PyNone \<Rightarrow> Inr types
      | PyStr p \<Rightarrow>
          if slugify (Some p) \<in> set names then
            if slugify (Some p) \<in> set not_null then
              (case py_index names (slugify (Some p)) of
                 Inl e \<Rightarrow> Inl e
               | Inr pkey_col_index \<Rightarrow> py_append_at types pkey_col_index '' PRIMARY KEY'')
            else Inl PrimaryKeyNullError
          else Inl PkeyNotInDataFrame
      | _ \<Rightarrow> Inl PkeyTypeError)"

text \<open>Lines 151 to 153: the loop over \<open>not_null_columns\<close>.\<close>

fun add_not_null ::
  "string option list \<Rightarrow> string option list \<Rightarrow> string list \<Rightarrow> error + string list" where
  "add_not_null names [] types = Inr types"
| "add_not_null names (column # columns) types =
     (case py_index names (slugify column) of
        Inl e \<Rightarrow> Inl e
      | Inr not_null_column_index \<Rightarrow>
          (case py_append_at types not_null_column_index '' NOT NULL'' of
             Inl e \<Rightarrow> Inl e
           | Inr types' \<Rightarrow> add_not_null names columns types'))"

text \<open>Lines 148 to 153.\<close>

definition non_null_columns ::
  "pyval \<Rightarrow> pyval \<Rightarrow> string option list \<Rightarrow> string option list \<Rightarrow> string list \<Rightarrow> error + string list" where
  "non_null_columns infer_nulls pkey names not_null types =
     (if py_eq infer_nulls (PyBool True) then
        (case (if pkey \<noteq> PyNone
               then (case slugify_arg pkey of Inl e \<Rightarrow> Inl e | Inr k \<Rightarrow> py_remove not_null k)
               else Inr not_null) of
           Inl e \<Rightarrow> Inl e
         | Inr not_null' \<Rightarrow> add_not_null names not_null' types)
      else Inr types)"

text \<open>Lines 158 to 162: the loop over the items of \<open>overwrite\<close>, in the order of the dict.\<close>

fun overwrite_items ::
  "string option list \<Rightarrow> (string \<times> string) list \<Rightarrow> string list \<Rightarrow> error + string list" where
  "overwrite_items names [] types = Inr types"
| "overwrite_items names ((column, sql_type) # items) types =
     (if slugify (Some column) \<in> set names then
        (case py_index names (slugify (Some column)) of
           Inl e \<Rightarrow> Inl e
         | Inr i \<Rightarrow>
             (case py_set types i sql_type of
                Inl e \<Rightarrow> Inl e
              | Inr types' \<Rightarrow> overwrite_items names items types'))
      else Inl OverwriteInvalidColumn)"

definition apply_overwrite ::
  "(string \<times> string) list option \<Rightarrow> string option list \<Rightarrow> string list \<Rightarrow> error + string list" where
  "apply_overwrite overwrite names types =
     (case overwrite of None \<Rightarrow> Inr types | Some items \<Rightarrow> overwrite_items names items types)"

text \<open>
  Lines 83 to 162: the value of \<open>sql_col_types\<close> when the script is about to be
  written, or the exception raised before.
\<close>

definition sql_col_types ::
  "dataframe \<Rightarrow> pyval \<Rightarrow> pyval \<Rightarrow> pyval \<Rightarrow> (string \<times> string) list option \<Rightarrow> error + string list" where
  "sql_col_types df pkey varchar_max infer_nulls overwrite =
     (if length (remdups (map fst df)) < length (map fst df) then Inl DuplicateColumns
      else if \<not> py_in infer_nulls [PyBool True, PyBool False] then Inl InferNullsTypeError
      else
        (case infer_sql_col_types varchar_max (map snd df) [] of
           Inl e \<Rightarrow> Inl e
         | Inr types0 \<Rightarrow>
             (case primary_key pkey (sql_col_names df) (not_null_columns df) types0 of
                Inl e \<Rightarrow> Inl e
              | Inr types1 \<Rightarrow>
                  (case non_null_columns infer_nulls pkey (sql_col_names df)
                          (not_null_columns df) types1 of
                     Inl e \<Rightarrow> Inl e
                   | Inr types2 \<Rightarrow> apply_overwrite overwrite (sql_col_names df) types2))))"





section \<open>Properties of slugify\<close>




















section \<open>Type inference for integer columns\<close>

lemma series_min_Min:
  assumes "vs \<noteq> []"
  shows "series_min vs = Some (Min (set vs))"
proof (cases vs)
  case Nil
  with assms show ?thesis by simp
next
  case (Cons v ws)
  have "Min (set (v # ws)) = fold min ws v" by (rule Min.set_eq_fold)
  then show ?thesis using Cons by (simp add: series_min_def)
qed

lemma series_max_Max:
  assumes "vs \<noteq> []"
  shows "series_max vs = Some (Max (set vs))"
proof (cases vs)
  case Nil
  with assms show ?thesis by simp
next
  case (Cons v ws)
  have "Max (set (v # ws)) = fold max ws v" by (rule Max.set_eq_fold)
  then show ?thesis using Cons by (simp add: series_max_def)
qed

lemma min0_max1_values:
  assumes "series_min vs = Some 0" and "series_max vs = Some 1" and "v \<in> set vs"
  shows "v = 0 \<or> v = 1"
proof -
  from assms(3) have ne: "vs \<noteq> []" by auto
  have "Min (set vs) = 0" using assms(1) series_min_Min [OF ne] by simp
  moreover have "Max (set vs) = 1" using assms(2) series_max_Max [OF ne] by simp
  moreover have "Min (set vs) \<le> v" "v \<le> Max (set vs)" using assms(3) by simp_all
  ultimately show ?thesis by arith
qed

lemma values01_min_max:
  assumes "set vs = {0, 1}"
  shows "series_min vs = Some 0 \<and> series_max vs = Some 1"
proof -
  from assms have ne: "vs \<noteq> []" by auto
  show ?thesis by (simp add: series_min_Min [OF ne] series_max_Max [OF ne] assms)
qed

lemma not_bit:
  assumes "\<exists>v\<in>set vs. v \<noteq> 0 \<and> v \<noteq> 1"
  shows "\<not> (series_min vs = Some 0 \<and> series_max vs = Some 1)"
  using assms min0_max1_values by blast

text \<open>
  C1. An integer column with some value other than 0 and 1 gets its SQL type from the
  dtype name alone: \<open>int8\<close>, \<open>int16\<close> and \<open>uint8\<close> give \<open>SMALLINT\<close>, \<open>int32\<close> and
  \<open>uint16\<close> give \<open>INT\<close>, \<open>int64\<close> and \<open>uint32\<close> give \<open>BIGINT\<close>, and \<open>uint64\<close> gives
  \<open>NUMERIC\<close>, whatever the values and whatever \<open>varchar_max\<close> is.
\<close>

theorem integer_width_label_type:
  assumes "\<exists>v\<in>set vs. v \<noteq> 0 \<and> v \<noteq> 1"
  shows "column_sql_type varchar_max (IntSeries Int8 vs) = Inr (Some ''SMALLINT'')
       \<and> column_sql_type varchar_max (IntSeries Int16 vs) = Inr (Some ''SMALLINT'')
       \<and> column_sql_type varchar_max (IntSeries UInt8 vs) = Inr (Some ''SMALLINT'')
       \<and> column_sql_type varchar_max (IntSeries Int32 vs) = Inr (Some ''INT'')
       \<and> column_sql_type varchar_max (IntSeries UInt16 vs) = Inr (Some ''INT'')
       \<and> column_sql_type varchar_max (IntSeries Int64 vs) = Inr (Some ''BIGINT'')
       \<and> column_sql_type varchar_max (IntSeries UInt32 vs) = Inr (Some ''BIGINT'')
       \<and> column_sql_type varchar_max (IntSeries UInt64 vs) = Inr (Some ''NUMERIC'')"
  using not_bit [OF assms] by (simp add: column_sql_type_def)

theorem integer_width_label_type_witness:
  "(\<exists>v\<in>set [3, 0, 1 :: int]. v \<noteq> 0 \<and> v \<noteq> 1)
   \<and> column_sql_type (PyBool False) (IntSeries UInt64 [3, 0, 1]) = Inr (Some ''NUMERIC'')
   \<and> column_sql_type (PyBool False) (IntSeries Int16 [3, 0, 1]) = Inr (Some ''SMALLINT'')"
proof -
  have h: "\<exists>v\<in>set [3, 0, 1 :: int]. v \<noteq> 0 \<and> v \<noteq> 1" by simp
  show ?thesis using h integer_width_label_type [OF h, of "PyBool False"] by simp
qed

text \<open>
  C2 (as amended). The claim, \<open>BIT\<close> for every integer column all of whose values lie
  in {0, 1}, fails for a column that holds only zeros (or only ones, or no row): line 116
  asks for a minimum of 0 and a maximum of 1. An integer column in which both 0 and 1
  occur and nothing else does is typed \<open>BIT\<close>, whatever its dtype.
\<close>

theorem zero_and_one_column_bit:
  assumes "set vs = {0, 1}"
  shows "column_sql_type varchar_max (IntSeries d vs) = Inr (Some ''BIT'')"
  using values01_min_max [OF assms] by (cases d) (simp_all add: column_sql_type_def)

theorem zero_and_one_column_bit_witness:
  "set [0, 1, 1 :: int] = {0, 1}
   \<and> column_sql_type (PyBool False) (IntSeries UInt64 [0, 1, 1]) = Inr (Some ''BIT'')"
proof -
  have h: "set [0, 1, 1 :: int] = {0, 1}" by auto
  show ?thesis using h zero_and_one_column_bit [OF h, of "PyBool False" UInt64] by simp
qed

text \<open>An \<open>int8\<close> column of two zeros: every value lies in {0, 1}, the type is \<open>SMALLINT\<close>.\<close>

theorem all_zero_column_not_bit:
  "set [0, 0 :: int] \<subseteq> {0, 1}
   \<and> column_sql_type (PyBool False) (IntSeries Int8 [0, 0]) = Inr (Some ''SMALLINT'')
   \<and> column_sql_type (PyBool False) (IntSeries Int8 [0, 0]) \<noteq> Inr (Some ''BIT'')"
  by (simp add: column_sql_type_def series_min_def series_max_def)

text \<open>
  C3 (as amended). The claim, \<open>SMALLINT\<close> for both \<open>uint8\<close> and \<open>uint16\<close>, fails for
  \<open>uint16\<close>, which line 120 maps to \<open>INT\<close>. For columns with some value other than 0 and
  1, \<open>uint8\<close> gives \<open>SMALLINT\<close> and \<open>uint16\<close> gives \<open>INT\<close>, and two columns of the same
  dtype get the same type whatever their values.
\<close>

theorem uint8_smallint_uint16_int:
  assumes "\<exists>v\<in>set vs. v \<noteq> 0 \<and> v \<noteq> 1" and "\<exists>v\<in>set ws. v \<noteq> 0 \<and> v \<noteq> 1"
  shows "column_sql_type varchar_max (IntSeries UInt8 vs) = Inr (Some ''SMALLINT'')
       \<and> column_sql_type varchar_max (IntSeries UInt16 vs) = Inr (Some ''INT'')
       \<and> column_sql_type varchar_max (IntSeries d vs) = column_sql_type varchar_max (IntSeries d ws)"
  using not_bit [OF assms(1)] not_bit [OF assms(2)]
  by (cases d) (simp_all add: column_sql_type_def)

theorem uint8_smallint_uint16_int_witness:
  "(\<exists>v\<in>set [200 :: int]. v \<noteq> 0 \<and> v \<noteq> 1) \<and> (\<exists>v\<in>set [7, 60000 :: int]. v \<noteq> 0 \<and> v \<noteq> 1)
   \<and> column_sql_type (PyBool False) (IntSeries UInt8 [200]) = Inr (Some ''SMALLINT'')
   \<and> column_sql_type (PyBool False) (IntSeries UInt16 [200]) = Inr (Some ''INT'')
   \<and> column_sql_type (PyBool False) (IntSeries UInt16 [200])
       = column_sql_type (PyBool False) (IntSeries UInt16 [7, 60000])"
proof -
  have h: "\<exists>v\<in>set [200 :: int]. v \<noteq> 0 \<and> v \<noteq> 1" by simp
  have k: "\<exists>v\<in>set [7, 60000 :: int]. v \<noteq> 0 \<and> v \<noteq> 1" by simp
  show ?thesis using h k uint8_smallint_uint16_int [OF h k, of "PyBool False" UInt16] by blast
qed

text \<open>A \<open>uint16\<close> column holding 2 and 3 is typed \<open>INT\<close>, not \<open>SMALLINT\<close>.\<close>

theorem uint16_column_is_int:
  "column_sql_type (PyBool False) (IntSeries UInt16 [2, 3]) = Inr (Some ''INT'')
   \<and> column_sql_type (PyBool False) (IntSeries UInt16 [2, 3]) \<noteq> Inr (Some ''SMALLINT'')"
  by (simp add: column_sql_type_def series_min_def series_max_def)

section \<open>Properties of create_table_sql_script\<close>

subsection \<open>List operations\<close>





lemma py_index_Inr: "(py_index xs x = Inr i) = (x \<in> set xs \<and> i = first_index xs x)"
  by (auto simp: py_index_def)


lemma py_append_at_Inr:
  "(py_append_at ts i suffix = Inr ts') = (i < length ts \<and> ts' = ts[i := ts ! i @ suffix])"
  by (auto simp: py_append_at_def py_get_def py_set_def)




subsection \<open>The three steps\<close>


















subsection \<open>Not-null step\<close>





subsection \<open>Writing the script\<close>








subsection \<open>The call as a sequence of steps\<close>













subsection \<open>The column types when the script is written\<close>

lemma add_not_null_keys:
  "add_not_null names cs ts = Inr ts' \<Longrightarrow> c \<in> set cs \<Longrightarrow> slugify c \<in> set names"
proof (induction cs arbitrary: ts)
  case Nil
  then show ?case by simp
next
  case (Cons d cs)
  then show ?case
    by (auto simp: py_index_Inr py_append_at_Inr split: sum.splits)
qed

lemma non_null_columns_keys:
  assumes "non_null_columns infer_nulls pkey names not_null ts = Inr ts'"
    and "pkey = PyNone \<or> (\<exists>p. pkey = PyStr p)"
    and "py_eq infer_nulls (PyBool True)"
    and "c \<in> set (case pkey of PyStr p \<Rightarrow> remove1 (slugify (Some p)) not_null | _ \<Rightarrow> not_null)"
  shows "slugify c \<in> set names"
  using assms
  by (auto simp: non_null_columns_def py_remove_def dest: add_not_null_keys
           split: if_splits sum.splits)
























end
